theory Spec2Isabelle
  imports Complex_Main "HOL-Library.AList" "HOL-Library.Sublist"
begin

section \<open>Python values of a parsed protocol\<close>

text \<open>
  A parsed protocol is a nested Python structure: dictionaries with string keys, lists,
  numbers, text and \<^verbatim>\<open>None\<close>. A dictionary is an association list with distinct keys in
  insertion order, read with \<^const>\<open>map_of\<close> and written with \<^const>\<open>AList.update\<close>
  (which replaces in place or appends, as a Python dict does). Python's unbounded
  integers are \<^typ>\<open>int\<close>; Python's floats are idealised as \<^typ>\<open>real\<close>, so rounding,
  infinities and NaN are outside this development.
\<close>

datatype pyval =
    VNone
  | VInt int
  | VFloat real
  | VStr string
  | VList "pyval list"
  | VDict "(string \<times> pyval) list"

text \<open>Every exception the modelled code can raise is a value; the text of a message is kept.\<close>

datatype error =
    KeyError string
  | IndexError string
  | ValueError string
  | TypeError
  | AttributeError
  | ZeroDivisionError

definition rbind :: "error + 'a \<Rightarrow> ('a \<Rightarrow> error + 'b) \<Rightarrow> error + 'b" where
  "rbind m f = (case m of Inl e \<Rightarrow> Inl e | Inr x \<Rightarrow> f x)"

subsection \<open>Text of an integer, as \<^verbatim>\<open>str\<close> and f-strings print it\<close>

definition digit_char :: "nat \<Rightarrow> char" where
  "digit_char n = ''0123456789'' ! (n mod 10)"

function str_nat :: "nat \<Rightarrow> string" where
  "str_nat n = (if n < 10 then [digit_char n] else str_nat (n div 10) @ [digit_char n])"
  by pat_completeness auto
termination
  by (relation "measure (\<lambda>n. n)") auto

declare str_nat.simps [simp del]

definition str_int :: "int \<Rightarrow> string" where
  "str_int i = (if i < 0 then CHR ''-'' # str_nat (nat (- i)) else str_nat (nat i))"

text \<open>An attribute that holds either \<^verbatim>\<open>None\<close> or text, formatted inside an f-string.\<close>

definition fmt_name :: "string option \<Rightarrow> string" where
  "fmt_name n = (case n of None \<Rightarrow> ''None'' | Some s \<Rightarrow> s)"

subsection \<open>Subscripting, \<^verbatim>\<open>.get\<close>, \<^verbatim>\<open>len\<close>, iteration\<close>

text \<open>
  \<^verbatim>\<open>xs[i]\<close> on a Python list: a negative index counts from the end, and an index outside
  \<^verbatim>\<open>-len(xs) .. len(xs) - 1\<close> raises \<^verbatim>\<open>IndexError\<close>.
\<close>

definition list_getitem :: "'a list \<Rightarrow> int \<Rightarrow> error + 'a" where
  "list_getitem xs i =
     (if 0 \<le> i \<and> i < int (length xs) then Inr (xs ! nat i)
      else if i < 0 \<and> - int (length xs) \<le> i then Inr (xs ! nat (int (length xs) + i))
      else Inl (IndexError ''list index out of range''))"

datatype key = K string | I int

text \<open>
  \<^verbatim>\<open>x[k]\<close>: a dictionary raises \<^verbatim>\<open>KeyError\<close> on a missing key, a list or a text is
  indexed by position, and a number or \<^verbatim>\<open>None\<close> is not subscriptable.
\<close>

fun py_getitem :: "pyval \<Rightarrow> key \<Rightarrow> error + pyval" where
  "py_getitem (VDict d) (K k) = (case map_of d k of None \<Rightarrow> Inl (KeyError k) | Some x \<Rightarrow> Inr x)"
| "py_getitem (VDict d) (I i) = Inl (KeyError (str_int i))"
| "py_getitem (VList xs) (I i) = list_getitem xs i"
| "py_getitem (VList xs) (K k) = Inl TypeError"
| "py_getitem (VStr s) (I i) =
     (case list_getitem s i of
        Inl e \<Rightarrow> Inl (IndexError ''string index out of range'')
      | Inr c \<Rightarrow> Inr (VStr [c]))"
| "py_getitem (VStr s) (K k) = Inl TypeError"
| "py_getitem VNone k = Inl TypeError"
| "py_getitem (VInt n) k = Inl TypeError"
| "py_getitem (VFloat r) k = Inl TypeError"

text \<open>\<^verbatim>\<open>x[k1][k2]...\<close>, evaluated from the left.\<close>

fun py_path :: "pyval \<Rightarrow> key list \<Rightarrow> error + pyval" where
  "py_path x [] = Inr x"
| "py_path x (k # ks) = rbind (py_getitem x k) (\<lambda>y. py_path y ks)"

text \<open>\<^verbatim>\<open>x.get(k, default)\<close>: only a dictionary has the method.\<close>

fun py_get :: "pyval \<Rightarrow> string \<Rightarrow> pyval \<Rightarrow> error + pyval" where
  "py_get (VDict d) k dflt = (case map_of d k of None \<Rightarrow> Inr dflt | Some x \<Rightarrow> Inr x)"
| "py_get x k dflt = Inl AttributeError"

text \<open>\<^verbatim>\<open>x[k] = v\<close> with a text key \<^verbatim>\<open>k\<close>: only a dictionary accepts it.\<close>

fun py_setitem :: "pyval \<Rightarrow> string \<Rightarrow> pyval \<Rightarrow> error + pyval" where
  "py_setitem (VDict d) k v = Inr (VDict (AList.update k v d))"
| "py_setitem x k v = Inl TypeError"

fun py_len :: "pyval \<Rightarrow> error + int" where
  "py_len (VList xs) = Inr (int (length xs))"
| "py_len (VDict d) = Inr (int (length d))"
| "py_len (VStr s) = Inr (int (length s))"
| "py_len x = Inl TypeError"

text \<open>\<^verbatim>\<open>for x in v\<close>: a list yields its items, a dictionary its keys, a text its characters.\<close>

fun py_iter :: "pyval \<Rightarrow> error + pyval list" where
  "py_iter (VList xs) = Inr xs"
| "py_iter (VDict d) = Inr (map (\<lambda>kv. VStr (fst kv)) d)"
| "py_iter (VStr s) = Inr (map (\<lambda>c. VStr [c]) s)"
| "py_iter x = Inl TypeError"

subsection \<open>Numbers\<close>

fun num :: "pyval \<Rightarrow> real option" where
  "num (VInt n) = Some (of_int n)"
| "num (VFloat r) = Some r"
| "num x = None"

text \<open>\<^verbatim>\<open>a == k\<close> for an integer literal \<^verbatim>\<open>k\<close>: numbers compare by value, anything else is unequal.\<close>

definition py_eq_int :: "pyval \<Rightarrow> int \<Rightarrow> bool" where
  "py_eq_int a k = (case num a of None \<Rightarrow> False | Some x \<Rightarrow> x = of_int k)"

text \<open>\<^verbatim>\<open>a / b\<close>: true division of numbers, always a float.\<close>

definition py_truediv :: "pyval \<Rightarrow> pyval \<Rightarrow> error + pyval" where
  "py_truediv a b =
     (case (num a, num b) of
        (Some x, Some y) \<Rightarrow> if y = 0 then Inl ZeroDivisionError else Inr (VFloat (x / y))
      | _ \<Rightarrow> Inl TypeError)"

text \<open>
  \<^verbatim>\<open>int(x)\<close>: an integer is kept, a float is truncated towards zero. Header parsers store
  numeric text as numbers, so a text that reaches \<^verbatim>\<open>int\<close> is not a numeral and is
  rejected.
\<close>

fun py_int :: "pyval \<Rightarrow> error + int" where
  "py_int (VInt n) = Inr n"
| "py_int (VFloat r) = Inr (if 0 \<le> r then \<lfloor>r\<rfloor> else \<lceil>r\<rceil>)"
| "py_int (VStr s) = Inl (ValueError ''invalid literal for int() with base 10'')"
| "py_int x = Inl TypeError"

section \<open>Volume collections (class \<^verbatim>\<open>volume\<close>)\<close>

record 'a volume =
  vol_box :: "'a list"
  name :: "string option"

definition volume_init :: "string option \<Rightarrow> 'a volume" where
  "volume_init n = \<lparr>vol_box = [], name = n\<rparr>"

definition add :: "'a volume \<Rightarrow> 'a \<Rightarrow> 'a volume" where
  "add c vol = c\<lparr>vol_box := vol_box c @ [vol]\<rparr>"

definition len :: "'a volume \<Rightarrow> nat" where
  "len c = length (vol_box c)"

definition getitem :: "'a volume \<Rightarrow> int \<Rightarrow> error + 'a" where
  "getitem c index =
     (if index \<ge> int (length (vol_box c))
      then Inl (IndexError (''Item out of range. '' @ fmt_name (name c) @ '' volume has only ''
                  @ str_int (int (length (vol_box c))) @ '' items but '' @ str_int index
                  @ '' is asked.''))
      else list_getitem (vol_box c) index)"

section \<open>Volume descriptors (class \<^verbatim>\<open>volume_orientation\<close>)\<close>

text \<open>
  The module \<^verbatim>\<open>transformation\<close> that the constructor calls is a parameter: its three
  functions take what the constructor passes and return a matrix of some type \<open>'m\<close> or
  raise.
\<close>

record 'm transformation =
  calc_norm2dcm :: "pyval \<Rightarrow> pyval \<Rightarrow> pyval \<Rightarrow> pyval \<Rightarrow> error + 'm"
  calc_tranformation_matrix :: "'m \<Rightarrow> pyval list \<Rightarrow> error + 'm"
  calc_nifti_affine :: "'m \<Rightarrow> pyval \<Rightarrow> pyval \<Rightarrow> pyval \<Rightarrow> error + 'm"

record 'm volume_orientation =
  vo_norm :: "pyval list"
  vo_rot :: pyval
  vo_pos :: "pyval list"
  vo_fov :: pyval
  vo_res :: pyval
  vo_thickness :: pyval
  vo_affine :: 'm
  vo_transformation :: 'm
  vo_name :: pyval

text \<open>\<^verbatim>\<open>v.get(k1, {}).get(k2, 0)\<close>\<close>

definition get_get :: "pyval \<Rightarrow> string \<Rightarrow> string \<Rightarrow> error + pyval" where
  "get_get v k1 k2 = rbind (py_get v k1 (VDict [])) (\<lambda>p. py_get p k2 (VInt 0))"

text \<open>\<^verbatim>\<open>v[k1].get(k2, 0)\<close>\<close>

definition item_get :: "pyval \<Rightarrow> string \<Rightarrow> string \<Rightarrow> error + pyval" where
  "item_get v k1 k2 = rbind (py_getitem v (K k1)) (\<lambda>n. py_get n k2 (VInt 0))"

text \<open>Line 21: the normal vector.\<close>

definition read_normal :: "pyval \<Rightarrow> error + pyval list" where
  "read_normal v =
     rbind (item_get v ''sNormal'' ''dSag'') (\<lambda>s.
     rbind (item_get v ''sNormal'' ''dCor'') (\<lambda>c.
     rbind (item_get v ''sNormal'' ''dTra'') (\<lambda>t. Inr [s, c, t])))"

text \<open>Line 23 (and line 113 of the slice loop): the position.\<close>

definition read_position :: "pyval \<Rightarrow> error + pyval list" where
  "read_position v =
     rbind (get_get v ''sPosition'' ''dSag'') (\<lambda>s.
     rbind (get_get v ''sPosition'' ''dCor'') (\<lambda>c.
     rbind (get_get v ''sPosition'' ''dTra'') (\<lambda>t. Inr [s, c, t])))"

text \<open>Line 24: the field of view, a dictionary with the keys x, y, z.\<close>

definition read_fov :: "pyval \<Rightarrow> error + pyval" where
  "read_fov v =
     rbind (py_getitem v (K ''dReadoutFOV'')) (\<lambda>x.
     rbind (py_getitem v (K ''dPhaseFOV'')) (\<lambda>y.
     rbind (py_getitem v (K ''dThickness'')) (\<lambda>z.
       Inr (VDict [(''x'', x), (''y'', y), (''z'', z)]))))"

text \<open>Line 26: \<^verbatim>\<open>{key: int(value) for key, value in d.items()}\<close>\<close>

fun int_items :: "(string \<times> pyval) list \<Rightarrow> error + (string \<times> pyval) list" where
  "int_items [] = Inr []"
| "int_items (kv # kvs) =
     rbind (py_int (snd kv)) (\<lambda>n.
     rbind (int_items kvs) (\<lambda>r. Inr ((fst kv, VInt n) # r)))"

text \<open>Lines 25-26: the resolution, as supplied or else the truncated field of view.\<close>

definition resolve_res :: "pyval \<Rightarrow> pyval \<Rightarrow> error + pyval" where
  "resolve_res fov res =
     (if res = VNone
      then (case fov of VDict d \<Rightarrow> rbind (int_items d) (\<lambda>r. Inr (VDict r)) | _ \<Rightarrow> Inl AttributeError)
      else Inr res)"

text \<open>Lines 27-28: the thickness, as supplied or else \<^verbatim>\<open>fov['z'] / res['z']\<close>.\<close>

definition resolve_thickness :: "pyval \<Rightarrow> pyval \<Rightarrow> pyval \<Rightarrow> error + pyval" where
  "resolve_thickness fov res thickness =
     (if thickness = VNone
      then rbind (py_getitem fov (K ''z'')) (\<lambda>a.
           rbind (py_getitem res (K ''z'')) (\<lambda>b. py_truediv a b))
      else Inr thickness)"

text \<open>
  Lines 30-32: a resolution with \<^verbatim>\<open>z == 1\<close> is changed to \<^verbatim>\<open>z = 3\<close> and the thickness is
  divided by 3. The assignment writes into the dictionary the caller passed; the
  descriptor stores that same dictionary, so the caller's dictionary after the call is
  \<open>vo_res\<close> of the descriptor.
\<close>

definition single_slice_fix :: "pyval \<Rightarrow> pyval \<Rightarrow> error + pyval \<times> pyval" where
  "single_slice_fix res thickness =
     rbind (py_getitem res (K ''z'')) (\<lambda>z.
       if py_eq_int z 1
       then rbind (py_setitem res ''z'' (VInt 3)) (\<lambda>res'.
            rbind (py_truediv thickness (VInt 3)) (\<lambda>thickness'. Inr (res', thickness')))
       else Inr (res, thickness))"

definition volume_orientation_init ::
  "'m transformation \<Rightarrow> pyval \<Rightarrow> pyval \<Rightarrow> pyval \<Rightarrow> pyval \<Rightarrow> error + 'm volume_orientation" where
  "volume_orientation_init T v res thickness nm =
     rbind (read_normal v) (\<lambda>nrm.
     rbind (py_get v ''dInPlaneRot'' (VInt 0)) (\<lambda>rot.
     rbind (read_position v) (\<lambda>pos.
     rbind (read_fov v) (\<lambda>fov.
     rbind (resolve_res fov res) (\<lambda>res1.
     rbind (resolve_thickness fov res1 thickness) (\<lambda>thickness1.
     rbind (single_slice_fix res1 thickness1) (\<lambda>fixed.
     rbind (calc_norm2dcm T (nrm ! 0) (nrm ! 1) (nrm ! 2) rot) (\<lambda>dcm.
     rbind (calc_tranformation_matrix T dcm pos) (\<lambda>tr.
     rbind (calc_nifti_affine T tr fov (fst fixed) (snd fixed)) (\<lambda>aff.
       Inr \<lparr>vo_norm = nrm, vo_rot = rot, vo_pos = pos, vo_fov = fov,
            vo_res = fst fixed, vo_thickness = snd fixed,
            vo_affine = aff, vo_transformation = tr, vo_name = nm\<rparr>))))))))))"

text \<open>The properties \<^verbatim>\<open>shape\<close> and \<^verbatim>\<open>fov\<close>: three subscripts, collected in a tuple.\<close>

definition shape :: "'m volume_orientation \<Rightarrow> error + pyval \<times> pyval \<times> pyval" where
  "shape d =
     rbind (py_getitem (vo_res d) (K ''y'')) (\<lambda>y.
     rbind (py_getitem (vo_res d) (K ''x'')) (\<lambda>x.
     rbind (py_getitem (vo_res d) (K ''z'')) (\<lambda>z. Inr (y, x, z))))"

definition fov :: "'m volume_orientation \<Rightarrow> error + pyval \<times> pyval \<times> pyval" where
  "fov d =
     rbind (py_getitem (vo_fov d) (K ''y'')) (\<lambda>y.
     rbind (py_getitem (vo_fov d) (K ''x'')) (\<lambda>x.
     rbind (py_getitem (vo_fov d) (K ''z'')) (\<lambda>z. Inr (y, x, z))))"

text \<open>A transformation module that returns the same matrix everywhere, to run the constructor on concrete protocols.\<close>

definition const_transformation :: "nat transformation" where
  "const_transformation =
     \<lparr>calc_norm2dcm = (\<lambda>s c t r. Inr 0),
      calc_tranformation_matrix = (\<lambda>dcm pos. Inr 0),
      calc_nifti_affine = (\<lambda>tr fov res th. Inr 0)\<rparr>"

section \<open>The three collections of a protocol\<close>

text \<open>
  Each constructor starts from the empty collection of its name and returns it unchanged
  when its section of the protocol is missing or \<^verbatim>\<open>None\<close>.
\<close>

definition volume_adjustment_init ::
  "'m transformation \<Rightarrow> pyval \<Rightarrow> error + 'm volume_orientation volume" where
  "volume_adjustment_init T xp =
     rbind (py_get xp ''sAdjData'' VNone) (\<lambda>a.
       if a = VNone then Inr (volume_init (Some ''adjustment''))
       else
     rbind (py_getitem xp (K ''sAdjData'')) (\<lambda>a'.
     rbind (py_get a' ''sAdjVolume'' VNone) (\<lambda>b.
       if b = VNone then Inr (volume_init (Some ''adjustment''))
       else
     rbind (py_path xp [K ''sAdjData'', K ''sAdjVolume'']) (\<lambda>v.
     rbind (volume_orientation_init T v VNone VNone VNone) (\<lambda>d.
       Inr (add (volume_init (Some ''adjustment'')) d))))))"

text \<open>
  The loop of \<^verbatim>\<open>volume_slice\<close>. All slices are built with the one dictionary \<^verbatim>\<open>res\<close>; a
  constructor call may write into it (lines 30-31), so the loop carries the dictionary
  on as the call left it, which is \<open>vo_res\<close> of the descriptor just built. Line 113
  reads the position again and drops it.
\<close>

fun slice_loop ::
  "'m transformation \<Rightarrow> 'm volume_orientation volume \<Rightarrow> pyval \<Rightarrow> pyval list
     \<Rightarrow> error + 'm volume_orientation volume" where
  "slice_loop T c res [] = Inr c"
| "slice_loop T c res (SlcVol # rest) =
     rbind (volume_orientation_init T SlcVol res VNone VNone) (\<lambda>d.
     rbind (read_position SlcVol) (\<lambda>position.
       slice_loop T (add c d) (vo_res d) rest))"

definition volume_slice_init ::
  "'m transformation \<Rightarrow> pyval \<Rightarrow> error + 'm volume_orientation volume" where
  "volume_slice_init T xp =
     rbind (py_get xp ''sSliceArray'' VNone) (\<lambda>a.
       if a = VNone then Inr (volume_init (Some ''slice''))
       else
     rbind (py_getitem xp (K ''sSliceArray'')) (\<lambda>a'.
     rbind (py_get a' ''asSlice'' VNone) (\<lambda>b.
       if b = VNone then Inr (volume_init (Some ''slice''))
       else
     rbind (py_path xp [K ''sKSpace'', K ''lBaseResolution'']) (\<lambda>x.
     rbind (py_path xp [K ''sKSpace'', K ''lPhaseEncodingLines'']) (\<lambda>y.
     rbind (py_path xp [K ''sKSpace'', K ''lPartitions'']) (\<lambda>z.
     rbind (py_path xp [K ''sKSpace'', K ''ucDimension'']) (\<lambda>dim.
     rbind (py_path xp [K ''sSliceArray'', K ''asSlice'']) (\<lambda>slices.
     rbind (py_iter slices) (\<lambda>vs.
       slice_loop T (volume_init (Some ''slice''))
         (VDict [(''x'', x), (''y'', y), (''z'', if py_eq_int dim 4 then z else VInt 1)])
         vs)))))))))"

fun ptx_loop ::
  "'m transformation \<Rightarrow> 'm volume_orientation volume \<Rightarrow> pyval list
     \<Rightarrow> error + 'm volume_orientation volume" where
  "ptx_loop T c [] = Inr c"
| "ptx_loop T c (pTxVol # rest) =
     rbind (volume_orientation_init T pTxVol VNone VNone VNone) (\<lambda>d.
       ptx_loop T (add c d) rest)"

definition volume_ptx_init ::
  "'m transformation \<Rightarrow> pyval \<Rightarrow> error + 'm volume_orientation volume" where
  "volume_ptx_init T xp =
     rbind (py_get xp ''sPTXData'' VNone) (\<lambda>a.
       if a = VNone then Inr (volume_init (Some ''pTx''))
       else
     rbind (py_getitem xp (K ''sPTXData'')) (\<lambda>a'.
     rbind (py_get a' ''asPTXVolume'' VNone) (\<lambda>b.
       if b = VNone then Inr (volume_init (Some ''pTx''))
       else
     rbind (py_path xp [K ''sPTXData'', K ''asPTXVolume'']) (\<lambda>volumes.
     rbind (py_iter volumes) (\<lambda>vs.
       ptx_loop T (volume_init (Some ''pTx'')) vs)))))"

section \<open>The registry (class \<^verbatim>\<open>prot_volumes\<close>)\<close>

text \<open>
  The constructor tells its argument apart by \<^verbatim>\<open>is None\<close>, \<^verbatim>\<open>isinstance(param, dict)\<close> and
  \<^verbatim>\<open>os.path.isfile(param)\<close>. An argument is therefore \<^verbatim>\<open>None\<close>, a dictionary, a path (a
  \<^verbatim>\<open>str\<close>, \<^verbatim>\<open>bytes\<close> or path-like object, given with the name of its type), an \<^verbatim>\<open>int\<close>
  (which \<^verbatim>\<open>os.stat\<close> and \<^verbatim>\<open>open\<close> take as a file descriptor), or an object of any other
  type (a float, list, tuple, set, ...), given by the name of its type.
\<close>

datatype param =
    PNone
  | PDict "(string \<times> pyval) list"
  | PPath string string
  | PInt int
  | PObject string

text \<open>
  The file system and the parser of header text are parameters: \<open>isfile\<close> and
  \<open>isfile_fd\<close> say whether a path or a descriptor is a regular file, \<open>read_text\<close> and
  \<open>read_fd\<close> open it in text mode and read it, \<open>parse_buffer\<close> is the parser of
  twixtools.
\<close>

record platform =
  isfile :: "string \<Rightarrow> bool"
  isfile_fd :: "int \<Rightarrow> bool"
  read_text :: "string \<Rightarrow> error + string"
  read_fd :: "int \<Rightarrow> error + string"
  parse_buffer :: "string \<Rightarrow> error + pyval"

text \<open>
  \<^verbatim>\<open>os.path.isfile(x)\<close> calls \<^verbatim>\<open>os.stat(x)\<close>, answers \<^verbatim>\<open>False\<close> when that fails with
  \<^verbatim>\<open>OSError\<close> or \<^verbatim>\<open>ValueError\<close>, and lets the \<^verbatim>\<open>TypeError\<close> through that \<^verbatim>\<open>os.stat\<close>
  raises for anything but a path or an integer.
\<close>

definition os_path_isfile :: "platform \<Rightarrow> param \<Rightarrow> error + bool" where
  "os_path_isfile P p =
     (case p of
        PPath tn f \<Rightarrow> Inr (isfile P f)
      | PInt n \<Rightarrow> Inr (isfile_fd P n)
      | _ \<Rightarrow> Inl TypeError)"

text \<open>\<^verbatim>\<open>open(x, "r").read()\<close>\<close>

definition open_read :: "platform \<Rightarrow> param \<Rightarrow> error + string" where
  "open_read P p =
     (case p of
        PPath tn f \<Rightarrow> read_text P f
      | PInt n \<Rightarrow> read_fd P n
      | _ \<Rightarrow> Inl TypeError)"

record 'm prot_volumes =
  xprot :: pyval
  all_volumes :: "(string \<times> 'm volume_orientation volume) list"
  num_volumes :: nat

text \<open>Lines 154-158: the three collections, entered under their tags, and the total count.\<close>

definition build_volumes :: "'m transformation \<Rightarrow> pyval \<Rightarrow> error + 'm prot_volumes" where
  "build_volumes T xp =
     rbind (volume_slice_init T xp) (\<lambda>slc.
     rbind (volume_ptx_init T xp) (\<lambda>ptx.
     rbind (volume_adjustment_init T xp) (\<lambda>adj.
       Inr \<lparr>xprot = xp,
            all_volumes =
              AList.update ''adj'' adj (AList.update ''ptx'' ptx (AList.update ''slc'' slc [])),
            num_volumes =
              sum_list (map (\<lambda>kv. len (snd kv))
                (AList.update ''adj'' adj (AList.update ''ptx'' ptx (AList.update ''slc'' slc []))))\<rparr>)))"

text \<open>\<^verbatim>\<open>ValueError(f'Unknown parameter type: {type(param)}')\<close>\<close>

definition type_name :: "param \<Rightarrow> string" where
  "type_name p =
     (case p of
        PNone \<Rightarrow> ''NoneType''
      | PDict d \<Rightarrow> ''dict''
      | PPath tn f \<Rightarrow> tn
      | PInt n \<Rightarrow> ''int''
      | PObject tn \<Rightarrow> tn)"

definition unknown_parameter :: "param \<Rightarrow> error" where
  "unknown_parameter p =
     ValueError (''Unknown parameter type: <class '' @ [CHR 0x27] @ type_name p @ [CHR 0x27] @ ''>'')"

text \<open>
  Lines 134-152: the protocol that the argument stands for. With \<^verbatim>\<open>None\<close> the constructor
  returns at once and there is none.
\<close>

definition read_xprot :: "platform \<Rightarrow> param \<Rightarrow> error + pyval option" where
  "read_xprot P p =
     (case p of
        PNone \<Rightarrow> Inr None
      | PDict d \<Rightarrow>
          rbind (py_get (VDict d) ''hdr'' VNone) (\<lambda>h.
            if h \<noteq> VNone
            then rbind (py_path (VDict d) [K ''hdr'', K ''MeasYaps'']) (\<lambda>x. Inr (Some x))
            else
          rbind (py_get (VDict d) ''MeasYaps'' VNone) (\<lambda>m.
            if m \<noteq> VNone
            then rbind (py_getitem (VDict d) (K ''MeasYaps'')) (\<lambda>x. Inr (Some x))
            else
          rbind (py_get (VDict d) ''ulVersion'' VNone) (\<lambda>u.
            if u \<noteq> VNone
            then Inr (Some (VDict d))
            else Inl (unknown_parameter p))))
      | _ \<Rightarrow>
          rbind (os_path_isfile P p) (\<lambda>b.
            if b
            then rbind (open_read P p) (\<lambda>str.
                 rbind (parse_buffer P str) (\<lambda>x. Inr (Some x)))
            else Inl (unknown_parameter p)))"

text \<open>
  The constructor. When it returns at once, the object shows the attributes of the
  class: no protocol, an empty dictionary of collections, zero volumes.
\<close>

definition prot_volumes_init ::
  "'m transformation \<Rightarrow> platform \<Rightarrow> param \<Rightarrow> error + 'm prot_volumes" where
  "prot_volumes_init T P p =
     rbind (read_xprot P p) (\<lambda>x.
       case x of
         None \<Rightarrow> Inr \<lparr>xprot = VNone, all_volumes = [], num_volumes = 0\<rparr>
       | Some xp \<Rightarrow> build_volumes T xp)"

definition get_volume_names :: "'m prot_volumes \<Rightarrow> string list" where
  "get_volume_names reg =
     filter (\<lambda>n. case map_of (all_volumes reg) n of None \<Rightarrow> False | Some c \<Rightarrow> len c > 0)
       (map fst (all_volumes reg))"

definition get :: "'m prot_volumes \<Rightarrow> string \<Rightarrow> error + 'm volume_orientation volume" where
  "get reg volume_name =
     (case map_of (all_volumes reg) volume_name of
        Some c \<Rightarrow> Inr c
      | None \<Rightarrow> Inl (ValueError (''Unknown volume name: '' @ volume_name)))"

section \<open>The protocol summary (class \<^verbatim>\<open>protocol_parse\<close>)\<close>

text \<open>
  The constructor reads \<^verbatim>\<open>twix_obj['hdr']\<close>, a parsed header, and \<^verbatim>\<open>twix_obj['image']\<close>, an
  array object of twixtools of which it uses the list of dimension names \<^verbatim>\<open>dims\<close> and the
  list of sizes \<^verbatim>\<open>shape\<close> (here \<open>img_shape\<close>).
\<close>

record twix_array =
  dims :: "string list"
  img_shape :: "int list"

record twix_obj =
  hdr :: pyval
  image_obj :: twix_array

record protocol_parse =
  is3D :: bool
  res :: pyval
  isParallelImaging :: bool
  isRefScanSeparate :: bool
  acceleration_factor :: "pyval list"
  isPartialFourierRO :: bool
  isPartialFourierPE1 :: bool
  isPartialFourierPE2 :: bool
  protName :: pyval
  TR :: pyval
  TE :: pyval
  FA :: pyval
  OS :: pyval
  coilName :: pyval
  shims :: pyval

text \<open>\<^verbatim>\<open>xs.index(x)\<close>: the first position of \<^verbatim>\<open>x\<close>, or \<^verbatim>\<open>ValueError\<close>.\<close>

fun list_index :: "'a list \<Rightarrow> 'a \<Rightarrow> error + nat" where
  "list_index [] x = Inl (ValueError ''x not in list'')"
| "list_index (y # ys) x =
     (if y = x then Inr 0 else rbind (list_index ys x) (\<lambda>i. Inr (Suc i)))"

text \<open>
  Line 37: \<^verbatim>\<open>abs(res['x'] - img.shape[img.dims.index('Col')//2]) > 4\<close>. The floor division
  by 2 is applied to the position of \<^verbatim>\<open>Col\<close> in \<^verbatim>\<open>dims\<close>, and the result indexes \<^verbatim>\<open>shape\<close>.
\<close>

definition partial_fourier_ro :: "pyval \<Rightarrow> twix_array \<Rightarrow> error + bool" where
  "partial_fourier_ro rs img =
     rbind (py_getitem rs (K ''x'')) (\<lambda>x.
     rbind (list_index (dims img) ''Col'') (\<lambda>i.
     rbind (list_getitem (img_shape img) (int (i div 2))) (\<lambda>n.
       case num x of
         None \<Rightarrow> Inl TypeError
       | Some r \<Rightarrow> Inr (\<bar>r - of_int n\<bar> > 4))))"

text \<open>
  numpy arrays are idealised as the nested lists they are made from; that numpy wants
  an array to be rectangular is not modelled. \<^verbatim>\<open>np.array(x) / k\<close> divides a number, and
  a list element by element.
\<close>

fun np_div :: "pyval \<Rightarrow> real \<Rightarrow> error + pyval"
  and np_div_list :: "pyval list \<Rightarrow> real \<Rightarrow> error + pyval list" where
  "np_div (VInt n) k = Inr (VFloat (of_int n / k))"
| "np_div (VFloat r) k = Inr (VFloat (r / k))"
| "np_div (VList xs) k = rbind (np_div_list xs k) (\<lambda>ys. Inr (VList ys))"
| "np_div VNone k = Inl TypeError"
| "np_div (VStr s) k = Inl TypeError"
| "np_div (VDict d) k = Inl TypeError"
| "np_div_list [] k = Inr []"
| "np_div_list (x # xs) k =
     rbind (np_div x k) (\<lambda>y. rbind (np_div_list xs k) (\<lambda>ys. Inr (y # ys)))"

text \<open>
  \<^verbatim>\<open>np.array(x)[0:n]\<close>: only an array made from a list has an axis to slice; the bound is
  an integer (a negative one counts from the end) or \<^verbatim>\<open>None\<close>.
\<close>

fun np_slice_to :: "pyval \<Rightarrow> pyval \<Rightarrow> error + pyval" where
  "np_slice_to (VList xs) (VInt n) =
     Inr (VList (take (if n < 0 then nat (int (length xs) + n) else nat n) xs))"
| "np_slice_to (VList xs) VNone = Inr (VList xs)"
| "np_slice_to (VList xs) n = Inl TypeError"
| "np_slice_to x n = Inl (IndexError ''too many indices for array'')"

text \<open>Lines 49-51: \<^verbatim>\<open>g.get('asGPAData', 0.0)[0].get(k, 0)\<close> for \<^verbatim>\<open>g = hdr['Phoenix']['sGRADSPEC']\<close>.\<close>

definition gpa_offset :: "pyval \<Rightarrow> string \<Rightarrow> error + pyval" where
  "gpa_offset h k =
     rbind (py_path h [K ''Phoenix'', K ''sGRADSPEC'']) (\<lambda>g.
     rbind (py_get g ''asGPAData'' (VFloat 0)) (\<lambda>a.
     rbind (py_getitem a (I 0)) (\<lambda>a0. py_get a0 k (VInt 0))))"

text \<open>Lines 52-60: \<^verbatim>\<open>alShimCurrent[i] if len(alShimCurrent) > i else 0.0\<close>\<close>

definition shim_current :: "pyval \<Rightarrow> int \<Rightarrow> error + pyval" where
  "shim_current alShimCurrent i =
     rbind (py_len alShimCurrent) (\<lambda>n.
       if n > i then py_getitem alShimCurrent (I i) else Inr (VFloat 0))"

text \<open>Lines 47-60: the shim settings.\<close>

definition read_shims :: "pyval \<Rightarrow> error + pyval" where
  "read_shims h =
     rbind (py_path h [K ''Phoenix'', K ''sGRADSPEC'']) (\<lambda>g.
     rbind (py_get g ''alShimCurrent'' (VFloat 0)) (\<lambda>alShimCurrent.
     rbind (py_path h [K ''MeasYaps'', K ''sTXSPEC'', K ''asNucleusInfo'', I 0, K ''lFrequency'']) (\<lambda>a00.
     rbind (gpa_offset h ''lOffsetX'') (\<lambda>x.
     rbind (gpa_offset h ''lOffsetY'') (\<lambda>y.
     rbind (gpa_offset h ''lOffsetZ'') (\<lambda>z.
     rbind (shim_current alShimCurrent 0) (\<lambda>a20.
     rbind (shim_current alShimCurrent 1) (\<lambda>a21.
     rbind (shim_current alShimCurrent 2) (\<lambda>b21.
     rbind (shim_current alShimCurrent 3) (\<lambda>a22.
     rbind (shim_current alShimCurrent 4) (\<lambda>b22.
     rbind (shim_current alShimCurrent 5) (\<lambda>a30.
     rbind (shim_current alShimCurrent 6) (\<lambda>a31.
     rbind (shim_current alShimCurrent 7) (\<lambda>b31.
     rbind (shim_current alShimCurrent 8) (\<lambda>a32.
       Inr (VDict [(''A00'', a00), (''X'', x), (''Y'', y), (''Z'', z),
                   (''A20'', a20), (''A21'', a21), (''B21'', b21), (''A22'', a22),
                   (''B22'', b22), (''A30'', a30), (''A31'', a31), (''B31'', b31),
                   (''A32'', a32)]))))))))))))))))"

text \<open>Lines 28-32: the dimension flag and the resolution.\<close>

definition read_res :: "pyval \<Rightarrow> error + bool \<times> pyval" where
  "read_res h =
     rbind (py_path h [K ''MeasYaps'', K ''sKSpace'', K ''ucDimension'']) (\<lambda>dim.
     rbind (py_path h [K ''MeasYaps'', K ''sKSpace'', K ''lBaseResolution'']) (\<lambda>x.
     rbind (py_path h [K ''MeasYaps'', K ''sKSpace'', K ''lPhaseEncodingLines'']) (\<lambda>y.
     rbind (py_path h [K ''MeasYaps'', K ''sSliceArray'', K ''lSize'']) (\<lambda>z.
       if py_eq_int dim 4
       then rbind (py_path h [K ''MeasYaps'', K ''sKSpace'', K ''lPartitions'']) (\<lambda>p.
              Inr (True, VDict [(''x'', x), (''y'', y), (''z'', p)]))
       else Inr (False, VDict [(''x'', x), (''y'', y), (''z'', z)])))))"

text \<open>Lines 40-45: name, timing, flip angle and coil.\<close>

definition read_meas :: "pyval \<Rightarrow> error + pyval \<times> pyval \<times> pyval \<times> pyval \<times> pyval" where
  "read_meas h =
     rbind (py_path h [K ''Meas'', K ''tProtocolName'']) (\<lambda>pn.
     rbind (py_path h [K ''Meas'', K ''alTR'', I 0]) (\<lambda>tr0.
     rbind (np_div tr0 1000) (\<lambda>tr.
     rbind (py_path h [K ''Meas'', K ''alTE'']) (\<lambda>te0.
     rbind (py_path h [K ''Meas'', K ''lContrasts'']) (\<lambda>n.
     rbind (np_slice_to te0 n) (\<lambda>te.
     rbind (py_path h [K ''Meas'', K ''adFlipAngleDegree'', I 0]) (\<lambda>fa.
     rbind (py_path h [K ''MeasYaps'', K ''sCoilSelectMeas'', K ''aRxCoilSelectData'', I 0,
                       K ''asList'', I 0, K ''sCoilElementID'', K ''tCoilID'']) (\<lambda>coil.
       Inr (pn, tr, te, fa, coil)))))))))"

text \<open>
  The constructor. \<^verbatim>\<open>OS\<close> is not assigned, so the object shows the class attribute 0.
\<close>

definition protocol_parse_init :: "twix_obj \<Rightarrow> error + protocol_parse" where
  "protocol_parse_init tw =
     rbind (read_res (hdr tw)) (\<lambda>dr.
     rbind (py_path (hdr tw) [K ''MeasYaps'', K ''sPat'', K ''ucPATMode'']) (\<lambda>pat.
     rbind (py_path (hdr tw) [K ''MeasYaps'', K ''sPat'', K ''ucRefScanMode'']) (\<lambda>ref.
     rbind (py_path (hdr tw) [K ''MeasYaps'', K ''sPat'', K ''lAccelFactPE'']) (\<lambda>pe.
     rbind (py_path (hdr tw) [K ''MeasYaps'', K ''sPat'', K ''lAccelFact3D'']) (\<lambda>p3.
     rbind (partial_fourier_ro (snd dr) (image_obj tw)) (\<lambda>ro.
     rbind (py_path (hdr tw) [K ''MeasYaps'', K ''sKSpace'', K ''ucPhasePartialFourier'']) (\<lambda>pf1.
     rbind (py_path (hdr tw) [K ''MeasYaps'', K ''sKSpace'', K ''ucSlicePartialFourier'']) (\<lambda>pf2.
     rbind (read_meas (hdr tw)) (\<lambda>m.
     rbind (read_shims (hdr tw)) (\<lambda>sh.
       Inr \<lparr>is3D = fst dr, res = snd dr,
            isParallelImaging = py_eq_int pat 2,
            isRefScanSeparate = py_eq_int ref 4,
            acceleration_factor = [pe, p3],
            isPartialFourierRO = ro,
            isPartialFourierPE1 = (\<not> py_eq_int pf1 16),
            isPartialFourierPE2 = (\<not> py_eq_int pf2 16),
            protName = fst m, TR = fst (snd m), TE = fst (snd (snd m)),
            FA = fst (snd (snd (snd m))), OS = VInt 0,
            coilName = snd (snd (snd (snd m))), shims = sh\<rparr>))))))))))"

section \<open>Example protocols\<close>

text \<open>A transverse volume of 200 mm by 220 mm with the given thickness, no rotation, no position.\<close>

definition ex_volume :: "real \<Rightarrow> pyval" where
  "ex_volume t =
     VDict [(''sNormal'', VDict [(''dTra'', VInt 1)]),
            (''dReadoutFOV'', VInt 200), (''dPhaseFOV'', VInt 220), (''dThickness'', VFloat t)]"

text \<open>The descriptor that the constructor builds for the volume of thickness 1.5 mm.\<close>

definition ex_descriptor :: "nat volume_orientation" where
  "ex_descriptor =
     \<lparr>vo_norm = [VInt 0, VInt 0, VInt 1], vo_rot = VInt 0,
      vo_pos = [VInt 0, VInt 0, VInt 0],
      vo_fov = VDict [(''x'', VInt 200), (''y'', VInt 220), (''z'', VFloat (3/2))],
      vo_res = VDict [(''x'', VInt 200), (''y'', VInt 220), (''z'', VInt 3)],
      vo_thickness = VFloat (1/2), vo_affine = 0, vo_transformation = 0,
      vo_name = VNone\<rparr>"

text \<open>A platform without files.\<close>

definition no_files :: platform where
  "no_files =
     \<lparr>isfile = (\<lambda>f. False), isfile_fd = (\<lambda>n. False),
      read_text = (\<lambda>f. Inl (ValueError ''no such file'')),
      read_fd = (\<lambda>n. Inl (ValueError ''no such file'')),
      parse_buffer = (\<lambda>s. Inl (ValueError ''no header''))\<rparr>"

text \<open>A protocol with an adjustment volume of the given thickness and nothing else.\<close>

definition ex_adjustment_protocol :: "real \<Rightarrow> (string \<times> pyval) list" where
  "ex_adjustment_protocol t =
     [(''ulVersion'', VInt 1), (''sAdjData'', VDict [(''sAdjVolume'', ex_volume t)])]"

text \<open>The registry built from the protocol whose adjustment volume is 1.5 mm thick.\<close>

definition ex_registry :: "nat prot_volumes" where
  "ex_registry =
     \<lparr>xprot = VDict (ex_adjustment_protocol (3/2)),
      all_volumes =
        [(''slc'', \<lparr>vol_box = [], name = Some ''slice''\<rparr>),
         (''ptx'', \<lparr>vol_box = [], name = Some ''pTx''\<rparr>),
         (''adj'', \<lparr>vol_box = [ex_descriptor], name = Some ''adjustment''\<rparr>)],
      num_volumes = 1\<rparr>"

text \<open>
  A header of a 2D gradient-echo measurement with base resolution 256, with the given
  contents of \<^verbatim>\<open>hdr['Phoenix']['sGRADSPEC']\<close>, and its image array in the 16 dimensions
  of twixtools: 256 lines, 32 channels, 256 columns, one repetition.
\<close>

definition ex_gpa :: "string \<times> pyval" where
  "ex_gpa = (''asGPAData'', VList [VDict [(''lOffsetX'', VInt 12), (''lOffsetY'', VInt (-7)), (''lOffsetZ'', VInt 3)]])"

definition ex_shim_current :: "string \<times> pyval" where
  "ex_shim_current = (''alShimCurrent'', VList [VInt 5, VInt (-4), VInt 3, VInt 2, VInt 1])"

definition ex_hdr :: "(string \<times> pyval) list \<Rightarrow> pyval" where
  "ex_hdr gradspec =
     VDict
      [(''MeasYaps'', VDict
         [(''sKSpace'', VDict
            [(''ucDimension'', VInt 2), (''lBaseResolution'', VInt 256),
             (''lPhaseEncodingLines'', VInt 256), (''lPartitions'', VInt 1),
             (''ucPhasePartialFourier'', VInt 16), (''ucSlicePartialFourier'', VInt 16)]),
          (''sSliceArray'', VDict [(''lSize'', VInt 1)]),
          (''sPat'', VDict
            [(''ucPATMode'', VInt 1), (''ucRefScanMode'', VInt 1),
             (''lAccelFactPE'', VInt 1), (''lAccelFact3D'', VInt 1)]),
          (''sCoilSelectMeas'', VDict
            [(''aRxCoilSelectData'', VList
               [VDict [(''asList'', VList
                  [VDict [(''sCoilElementID'', VDict [(''tCoilID'', VStr ''Head_32'')])]])]])]),
          (''sTXSPEC'', VDict
            [(''asNucleusInfo'', VList [VDict [(''lFrequency'', VInt 123255000)]])])]),
       (''Meas'', VDict
         [(''tProtocolName'', VStr ''gre''), (''alTR'', VList [VInt 8000]),
          (''alTE'', VList [VInt 4000, VInt 0]), (''lContrasts'', VInt 1),
          (''adFlipAngleDegree'', VList [VFloat 15])]),
       (''Phoenix'', VDict [(''sGRADSPEC'', VDict gradspec)])]"

definition ex_image :: twix_array where
  "ex_image =
     \<lparr>dims = [''Ide'', ''Idd'', ''Idc'', ''Idb'', ''Ida'', ''Seg'', ''Set'', ''Rep'',
              ''Phs'', ''Eco'', ''Par'', ''Sli'', ''Ave'', ''Lin'', ''Cha'', ''Col''],
      img_shape = [1, 1, 1, 1, 1, 1, 1, 1, 1, 1, 1, 1, 1, 256, 32, 256]\<rparr>"

definition ex_twix :: "(string \<times> pyval) list \<Rightarrow> twix_obj" where
  "ex_twix gradspec = \<lparr>hdr = ex_hdr gradspec, image_obj = ex_image\<rparr>"


section \<open>Notions of the specification\<close>

text \<open>A message names the valid set of collection names when each tag occurs in it.\<close>

definition names_valid_set :: "string \<Rightarrow> bool" where
  "names_valid_set msg = (sublist ''slc'' msg \<and> sublist ''ptx'' msg \<and> sublist ''adj'' msg)"

text \<open>
  The slice-array subsection is absent, at either level: \<^verbatim>\<open>sSliceArray\<close> is missing or
  \<^verbatim>\<open>None\<close>, or it is a dictionary in which \<^verbatim>\<open>asSlice\<close> is missing or \<^verbatim>\<open>None\<close>.
\<close>

definition slice_array_absent :: "(string \<times> pyval) list \<Rightarrow> bool" where
  "slice_array_absent xp =
     (case map_of xp ''sSliceArray'' of
        None \<Rightarrow> True
      | Some VNone \<Rightarrow> True
      | Some (VDict s) \<Rightarrow> (case map_of s ''asSlice'' of None \<Rightarrow> True | Some b \<Rightarrow> b = VNone)
      | Some _ \<Rightarrow> False)"




section \<open>Properties\<close>

subsection \<open>Results of the error monad\<close>

lemma rbind_Inr_iff: "rbind m f = Inr y \<longleftrightarrow> (\<exists>x. m = Inr x \<and> f x = Inr y)"
  by (cases m) (simp_all add: rbind_def)

lemma rbind_Inl [simp]: "rbind (Inl e) f = Inl e"
  by (simp add: rbind_def)

lemma rbind_Inr [simp]: "rbind (Inr x) f = f x"
  by (simp add: rbind_def)

subsection \<open>Stages of the descriptor's constructor\<close>

lemma volume_orientation_init_stages:
  assumes "volume_orientation_init T v rs thickness nm = Inr d"
  obtains f r t fx where
    "read_fov v = Inr f" "resolve_res f rs = Inr r"
    "resolve_thickness f r thickness = Inr t" "single_slice_fix r t = Inr fx"
    "vo_fov d = f" "vo_res d = fst fx" "vo_thickness d = snd fx" "vo_name d = nm"
proof -
  from assms obtain f r t fx aff tr nrm rot pos where
    st: "read_fov v = Inr f" "resolve_res f rs = Inr r"
      "resolve_thickness f r thickness = Inr t" "single_slice_fix r t = Inr fx"
    and d: "d = \<lparr>vo_norm = nrm, vo_rot = rot, vo_pos = pos, vo_fov = f,
            vo_res = fst fx, vo_thickness = snd fx,
            vo_affine = aff, vo_transformation = tr, vo_name = nm\<rparr>"
    unfolding volume_orientation_init_def rbind_Inr_iff by blast
  show thesis
    by (rule that [OF st]) (simp_all add: d)
qed

lemma read_fov_Inr:
  "read_fov v = Inr f \<longleftrightarrow>
     (\<exists>x y z. py_getitem v (K ''dReadoutFOV'') = Inr x \<and> py_getitem v (K ''dPhaseFOV'') = Inr y
        \<and> py_getitem v (K ''dThickness'') = Inr z \<and> f = VDict [(''x'', x), (''y'', y), (''z'', z)])"
  unfolding read_fov_def rbind_Inr_iff by auto


lemma single_slice_fix_other:
  assumes "single_slice_fix r t = Inr fx" "py_getitem r (K ''z'') = Inr z" "\<not> py_eq_int z 1"
  shows "fx = (r, t)"
  using assms by (auto simp: single_slice_fix_def rbind_Inr_iff)

lemma single_slice_fix_xy:
  assumes "single_slice_fix r t = Inr fx" "k \<noteq> ''z''"
  shows "py_getitem (fst fx) (K k) = py_getitem r (K k)"
  using assms
  by (cases r) (auto simp: single_slice_fix_def rbind_Inr_iff update_conv' split: option.splits if_splits)

lemma single_slice_fix_z:
  assumes "single_slice_fix r t = Inr fx"
  shows "\<exists>z. py_getitem (fst fx) (K ''z'') = Inr z \<and> \<not> py_eq_int z 1"
  using assms
  by (cases r) (auto simp: single_slice_fix_def rbind_Inr_iff update_conv' py_eq_int_def split: option.splits if_splits)

text \<open>
  A dictionary that has been through the constructor once is not written again: every
  later constructor call that is given it stores it unchanged. So all descriptors of a
  slice collection hold the resolution that the first call left.
\<close>

lemma volume_orientation_init_res_stable:
  assumes "volume_orientation_init T v rs thickness nm = Inr d"
    and "volume_orientation_init T v' (vo_res d) thickness' nm' = Inr d'"
  shows "vo_res d' = vo_res d"
proof -
  from assms(1) obtain r t fx where a: "single_slice_fix r t = Inr fx" "vo_res d = fst fx"
    by (rule volume_orientation_init_stages)
  from single_slice_fix_z [OF a(1)] a(2) obtain z where
    z: "py_getitem (vo_res d) (K ''z'') = Inr z" "\<not> py_eq_int z 1"
    by auto
  then have n: "vo_res d \<noteq> VNone" by auto
  from assms(2) obtain f' r' t' fx' where b: "resolve_res f' (vo_res d) = Inr r'"
    "single_slice_fix r' t' = Inr fx'" "vo_res d' = fst fx'"
    by (rule volume_orientation_init_stages)
  from b(1) n have "r' = vo_res d" by (simp add: resolve_res_def)
  with single_slice_fix_other [OF b(2)] z b(3) show ?thesis by simp
qed

subsection \<open>Collections\<close>

lemma str_nat_3: "str_nat 3 = ''3''"
  by (simp add: str_nat.simps [of 3] digit_char_def)

lemma str_nat_99: "str_nat 99 = ''99''"
  by (simp add: str_nat.simps [of 99] str_nat.simps [of 9] digit_char_def)

text \<open>
  C6. Indexing a collection at an index that is at least its length raises
  \<^verbatim>\<open>IndexError\<close>, and the message carries the collection's name, its size and the
  requested index.
\<close>

theorem getitem_out_of_range:
  "int (length (vol_box c)) \<le> i \<Longrightarrow>
   getitem c i = Inl (IndexError (''Item out of range. '' @ fmt_name (name c)
       @ '' volume has only '' @ str_int (int (length (vol_box c)))
       @ '' items but '' @ str_int i @ '' is asked.''))"
  by (simp add: getitem_def)

theorem getitem_out_of_range_witness:
  "int (length (vol_box \<lparr>vol_box = [10, 20, 30 :: nat], name = Some ''slice''\<rparr>)) \<le> 99
   \<and> getitem \<lparr>vol_box = [10, 20, 30 :: nat], name = Some ''slice''\<rparr> 99
     = Inl (IndexError ''Item out of range. slice volume has only 3 items but 99 is asked.'')"
  using getitem_out_of_range [of "\<lparr>vol_box = [10, 20, 30 :: nat], name = Some ''slice''\<rparr>" 99]
  by (simp add: fmt_name_def str_int_def str_nat_3 str_nat_99)

text \<open>
  C10. The range check of a collection rejects only indices that are at least the
  length: a negative index from \<^verbatim>\<open>-len(c)\<close> to \<^verbatim>\<open>-1\<close> is passed on to the list and returns
  the element at position \<^verbatim>\<open>len(c) + i\<close>; \<^verbatim>\<open>c[-1]\<close> is the last element.
\<close>

theorem getitem_negative_index:
  "vol_box c \<noteq> [] \<Longrightarrow> - int (length (vol_box c)) \<le> i \<Longrightarrow> i \<le> -1 \<Longrightarrow>
   getitem c i = Inr (vol_box c ! nat (int (length (vol_box c)) + i))
   \<and> getitem c (-1) = Inr (last (vol_box c))"
  by (auto simp: getitem_def list_getitem_def last_conv_nth nat_diff_distrib')

theorem getitem_negative_index_witness:
  "vol_box \<lparr>vol_box = [10, 20, 30 :: nat], name = Some ''slice''\<rparr> \<noteq> []
   \<and> - int (length (vol_box \<lparr>vol_box = [10, 20, 30 :: nat], name = Some ''slice''\<rparr>)) \<le> - 2
   \<and> getitem \<lparr>vol_box = [10, 20, 30 :: nat], name = Some ''slice''\<rparr> (- 2) = Inr 20
   \<and> getitem \<lparr>vol_box = [10, 20, 30 :: nat], name = Some ''slice''\<rparr> (- 1) = Inr 30"
  using getitem_negative_index [of "\<lparr>vol_box = [10, 20, 30 :: nat], name = Some ''slice''\<rparr>" "- 2"]
  by simp

subsection \<open>Descriptors\<close>

lemma ex_volume_init:
  "volume_orientation_init const_transformation (ex_volume (3/2)) VNone VNone VNone = Inr ex_descriptor"
  by (simp add: volume_orientation_init_def ex_volume_def read_normal_def item_get_def
      read_position_def get_get_def read_fov_def resolve_res_def resolve_thickness_def
      single_slice_fix_def py_truediv_def py_eq_int_def const_transformation_def ex_descriptor_def)




text \<open>
  C9. A field of view with all components positive can make the constructor divide by
  zero: with a thickness of 0.5 mm and neither resolution nor thickness supplied, the
  truncated resolution has \<^verbatim>\<open>z = 0\<close>, and deriving the thickness raises
  \<^verbatim>\<open>ZeroDivisionError\<close>, whatever the transformation module does.
\<close>

theorem thin_volume_division_by_zero:
  "volume_orientation_init T (ex_volume (1/2)) VNone VNone nm = Inl ZeroDivisionError
   \<and> read_fov (ex_volume (1/2)) = Inr (VDict [(''x'', VInt 200), (''y'', VInt 220), (''z'', VFloat (1/2))])
   \<and> resolve_res (VDict [(''x'', VInt 200), (''y'', VInt 220), (''z'', VFloat (1/2))]) VNone
       = Inr (VDict [(''x'', VInt 200), (''y'', VInt 220), (''z'', VInt 0)])"
  by (simp add: volume_orientation_init_def ex_volume_def read_normal_def item_get_def
      read_position_def get_get_def read_fov_def resolve_res_def resolve_thickness_def
      py_truediv_def)

text \<open>
  C7. For a constructed descriptor, \<^verbatim>\<open>fov\<close> is (phase, readout, slice) of the volume
  structure, and \<^verbatim>\<open>shape\<close> is (y, x, z) of the descriptor's resolution: x and y are
  swapped with respect to the supplied resolution, or to the truncated field of view when
  none was supplied.
\<close>

theorem shape_fov_swapped:
  assumes "volume_orientation_init T v rs thickness nm = Inr d"
  shows "\<exists>fr fp fs rz.
           py_getitem v (K ''dReadoutFOV'') = Inr fr \<and> py_getitem v (K ''dPhaseFOV'') = Inr fp
         \<and> py_getitem v (K ''dThickness'') = Inr fs \<and> fov d = Inr (fp, fr, fs)
         \<and> py_getitem (vo_res d) (K ''z'') = Inr rz
         \<and> (\<forall>rx ry. py_getitem (vo_res d) (K ''x'') = Inr rx \<longrightarrow> py_getitem (vo_res d) (K ''y'') = Inr ry
               \<longrightarrow> shape d = Inr (ry, rx, rz))
         \<and> (\<forall>rx ry. rs \<noteq> VNone \<longrightarrow> py_getitem rs (K ''x'') = Inr rx \<longrightarrow> py_getitem rs (K ''y'') = Inr ry
               \<longrightarrow> shape d = Inr (ry, rx, rz))
         \<and> (rs = VNone \<longrightarrow> (\<exists>ix iy. py_int fr = Inr ix \<and> py_int fp = Inr iy
               \<and> shape d = Inr (VInt iy, VInt ix, rz)))"
proof -
  from assms obtain f r t fx where st: "read_fov v = Inr f" "resolve_res f rs = Inr r"
    "resolve_thickness f r thickness = Inr t" "single_slice_fix r t = Inr fx"
    "vo_fov d = f" "vo_res d = fst fx"
    by (rule volume_orientation_init_stages)
  from st(1) obtain fr fp fs where g: "py_getitem v (K ''dReadoutFOV'') = Inr fr"
    "py_getitem v (K ''dPhaseFOV'') = Inr fp" "py_getitem v (K ''dThickness'') = Inr fs"
    and f: "f = VDict [(''x'', fr), (''y'', fp), (''z'', fs)]"
    by (auto simp: read_fov_Inr)
  from single_slice_fix_z [OF st(4)] obtain rz where rz: "py_getitem (vo_res d) (K ''z'') = Inr rz"
    by (auto simp: st(6))
  have xy: "py_getitem (vo_res d) (K ''x'') = py_getitem r (K ''x'')"
      "py_getitem (vo_res d) (K ''y'') = py_getitem r (K ''y'')"
    using single_slice_fix_xy [OF st(4)] by (simp_all add: st(6))
  have fovd: "fov d = Inr (fp, fr, fs)"
    by (simp add: fov_def st(5) f)
  have sh: "\<forall>rx ry. py_getitem (vo_res d) (K ''x'') = Inr rx \<longrightarrow> py_getitem (vo_res d) (K ''y'') = Inr ry
               \<longrightarrow> shape d = Inr (ry, rx, rz)"
    by (simp add: shape_def rz)
  have sup: "\<forall>rx ry. rs \<noteq> VNone \<longrightarrow> py_getitem rs (K ''x'') = Inr rx \<longrightarrow> py_getitem rs (K ''y'') = Inr ry
               \<longrightarrow> shape d = Inr (ry, rx, rz)"
    using st(2) sh xy by (auto simp: resolve_res_def)
  have der: "rs = VNone \<longrightarrow> (\<exists>ix iy. py_int fr = Inr ix \<and> py_int fp = Inr iy
               \<and> shape d = Inr (VInt iy, VInt ix, rz))"
  proof
    assume "rs = VNone"
    with st(2) f obtain ix iy iz where i: "py_int fr = Inr ix" "py_int fp = Inr iy"
      and r: "r = VDict [(''x'', VInt ix), (''y'', VInt iy), (''z'', VInt iz)]"
      by (auto simp: resolve_res_def rbind_Inr_iff)
    from r xy sh have "shape d = Inr (VInt iy, VInt ix, rz)" by simp
    with i show "\<exists>ix iy. py_int fr = Inr ix \<and> py_int fp = Inr iy \<and> shape d = Inr (VInt iy, VInt ix, rz)"
      by blast
  qed
  from g fovd rz sh sup der show ?thesis by blast
qed

theorem shape_fov_swapped_witness:
  "volume_orientation_init const_transformation (ex_volume (3/2)) VNone VNone VNone = Inr ex_descriptor
   \<and> shape ex_descriptor = Inr (VInt 220, VInt 200, VInt 3)
   \<and> fov ex_descriptor = Inr (VInt 220, VInt 200, VFloat (3/2))"
proof -
  from shape_fov_swapped [OF ex_volume_init]
  obtain fr fp fs rz ix iy where
    g: "py_getitem (ex_volume (3/2)) (K ''dReadoutFOV'') = Inr fr"
       "py_getitem (ex_volume (3/2)) (K ''dPhaseFOV'') = Inr fp"
       "py_getitem (ex_volume (3/2)) (K ''dThickness'') = Inr fs"
    and f: "fov ex_descriptor = Inr (fp, fr, fs)"
    and rz: "py_getitem (vo_res ex_descriptor) (K ''z'') = Inr rz"
    and i: "py_int fr = Inr ix" "py_int fp = Inr iy"
    and sh: "shape ex_descriptor = Inr (VInt iy, VInt ix, rz)"
    by blast
  from g have v: "fr = VInt 200" "fp = VInt 220" "fs = VFloat (3/2)"
    by (simp_all add: ex_volume_def)
  from rz have "rz = VInt 3" by (simp add: ex_descriptor_def)
  with v i sh f ex_volume_init show ?thesis by auto
qed

subsection \<open>The registry\<close>

lemma build_volumes_Inr:
  "build_volumes T xp = Inr reg \<longleftrightarrow>
     (\<exists>slc ptx adj. volume_slice_init T xp = Inr slc \<and> volume_ptx_init T xp = Inr ptx
        \<and> volume_adjustment_init T xp = Inr adj
        \<and> reg = \<lparr>xprot = xp, all_volumes = [(''slc'', slc), (''ptx'', ptx), (''adj'', adj)],
                  num_volumes = len slc + len ptx + len adj\<rparr>)"
  unfolding build_volumes_def rbind_Inr_iff by auto

lemma read_xprot_None_iff: "read_xprot P p = Inr None \<longleftrightarrow> p = PNone"
  by (cases p)
    (auto simp: read_xprot_def rbind_Inr_iff os_path_isfile_def split: if_splits option.splits)

lemma read_xprot_PNone [simp]: "read_xprot P PNone = Inr None"
  by (simp add: read_xprot_def)

lemma prot_volumes_init_Inr:
  "prot_volumes_init T P p = Inr reg \<longleftrightarrow>
     (p = PNone \<and> reg = \<lparr>xprot = VNone, all_volumes = [], num_volumes = 0\<rparr>)
     \<or> (\<exists>xp. read_xprot P p = Inr (Some xp) \<and> build_volumes T xp = Inr reg)"
proof -
  have "prot_volumes_init T P p = Inr reg \<longleftrightarrow>
      (read_xprot P p = Inr None \<and> reg = \<lparr>xprot = VNone, all_volumes = [], num_volumes = 0\<rparr>)
      \<or> (\<exists>xp. read_xprot P p = Inr (Some xp) \<and> build_volumes T xp = Inr reg)"
    unfolding prot_volumes_init_def rbind_Inr_iff by (auto split: option.splits)
  then show ?thesis by (simp add: read_xprot_None_iff)
qed

lemma prot_volumes_init_keys:
  assumes "prot_volumes_init T P p = Inr reg"
  shows "fst ` set (all_volumes reg) \<subseteq> {''slc'', ''ptx'', ''adj''}"
  using assms by (auto simp: prot_volumes_init_Inr build_volumes_Inr)

lemma get_volume_names_nonempty:
  assumes "n \<in> set (get_volume_names reg)"
  shows "\<exists>c. get reg n = Inr c \<and> 0 < len c"
  using assms by (auto simp: get_volume_names_def get_def split: option.splits)

lemma ex_volume_not_None [simp]: "ex_volume t \<noteq> VNone"
  by (simp add: ex_volume_def)

lemma ex_read_xprot:
  "read_xprot P (PDict (ex_adjustment_protocol t)) = Inr (Some (VDict (ex_adjustment_protocol t)))"
  by (simp add: read_xprot_def ex_adjustment_protocol_def)

lemma ex_slice_ptx:
  "volume_slice_init T (VDict (ex_adjustment_protocol t)) = Inr \<lparr>vol_box = [], name = Some ''slice''\<rparr>"
  "volume_ptx_init T (VDict (ex_adjustment_protocol t)) = Inr \<lparr>vol_box = [], name = Some ''pTx''\<rparr>"
  by (simp_all add: volume_slice_init_def volume_ptx_init_def ex_adjustment_protocol_def volume_init_def)

lemma ex_adjustment:
  "volume_adjustment_init const_transformation (VDict (ex_adjustment_protocol (3/2)))
      = Inr \<lparr>vol_box = [ex_descriptor], name = Some ''adjustment''\<rparr>"
  by (simp add: volume_adjustment_init_def ex_adjustment_protocol_def ex_volume_init
        add_def volume_init_def)

lemma ex_registry_init:
  "prot_volumes_init const_transformation no_files (PDict (ex_adjustment_protocol (3/2))) = Inr ex_registry"
  by (simp add: prot_volumes_init_Inr ex_read_xprot build_volumes_Inr ex_slice_ptx ex_adjustment
      ex_registry_def len_def)

lemma volume_slice_init_absent:
  assumes "slice_array_absent xp"
  shows "volume_slice_init T (VDict xp) = Inr (volume_init (Some ''slice''))"
  using assms
  by (auto simp: slice_array_absent_def volume_slice_init_def split: option.splits pyval.splits)



lemma prot_volumes_init_object: "prot_volumes_init T P (PObject tn) = Inl TypeError"
  by (simp add: prot_volumes_init_def read_xprot_def os_path_isfile_def)


text \<open>
  C3, as amended. On a constructed registry, \<^verbatim>\<open>get\<close> of a name that is none of
  \<^verbatim>\<open>slc\<close>, \<^verbatim>\<open>ptx\<close>, \<^verbatim>\<open>adj\<close> raises \<^verbatim>\<open>ValueError\<close>, and the message is
  \<^verbatim>\<open>Unknown volume name:\<close> followed by the requested name.
\<close>

theorem get_unknown_name:
  assumes "prot_volumes_init T P p = Inr reg"
    and "volume_name \<notin> {''slc'', ''ptx'', ''adj''}"
  shows "get reg volume_name = Inl (ValueError (''Unknown volume name: '' @ volume_name))"
proof -
  from prot_volumes_init_keys [OF assms(1)] assms(2)
  have "volume_name \<notin> fst ` set (all_volumes reg)" by blast
  then have "map_of (all_volumes reg) volume_name = None"
    by (simp add: map_of_eq_None_iff)
  then show ?thesis by (simp add: get_def)
qed

theorem get_unknown_name_witness:
  "prot_volumes_init const_transformation no_files (PDict (ex_adjustment_protocol (3/2))) = Inr ex_registry
   \<and> ''unknown'' \<notin> {''slc'', ''ptx'', ''adj''}
   \<and> get ex_registry ''unknown'' = Inl (ValueError ''Unknown volume name: unknown'')"
  using get_unknown_name [OF ex_registry_init, of "''unknown''"] ex_registry_init
  by simp

text \<open>
  C3, as stated, asks for a message that names the valid collection names. The message
  for the name \<^verbatim>\<open>unknown\<close> holds none of the three tags.
\<close>

theorem get_unknown_name_counterexample:
  "prot_volumes_init const_transformation no_files (PDict (ex_adjustment_protocol (3/2))) = Inr ex_registry
   \<and> ''unknown'' \<notin> {''slc'', ''ptx'', ''adj''}
   \<and> get ex_registry ''unknown'' = Inl (ValueError ''Unknown volume name: unknown'')
   \<and> \<not> names_valid_set ''Unknown volume name: unknown''"
  by (simp add: ex_registry_init get_def ex_registry_def names_valid_set_def sublist_Cons_right)





text \<open>
  C5, as amended. When the argument of the constructor stands for a protocol in which
  the slice-array subsection is absent, the slice collection is built without error and
  is empty; the constructor succeeds whenever the pTx and the adjustment collections
  are built; and in every registry it returns the collection \<^verbatim>\<open>slc\<close> has length 0 and
  \<^verbatim>\<open>get_volume_names\<close> leaves \<^verbatim>\<open>slc\<close> out, as it holds only names of collections that
  are not empty.
\<close>

theorem slice_array_absent_excluded:
  assumes "read_xprot P p = Inr (Some (VDict xp))" and "slice_array_absent xp"
  shows "volume_slice_init T (VDict xp) = Inr (volume_init (Some ''slice''))
     \<and> (\<forall>ptx adj. volume_ptx_init T (VDict xp) = Inr ptx \<longrightarrow>
           volume_adjustment_init T (VDict xp) = Inr adj \<longrightarrow>
           (\<exists>reg. prot_volumes_init T P p = Inr reg))
     \<and> (\<forall>reg. prot_volumes_init T P p = Inr reg \<longrightarrow>
           (\<exists>c. get reg ''slc'' = Inr c \<and> len c = 0)
           \<and> ''slc'' \<notin> set (get_volume_names reg)
           \<and> (\<forall>n \<in> set (get_volume_names reg). \<exists>c. get reg n = Inr c \<and> 0 < len c))"
proof (intro conjI allI impI)
  show s: "volume_slice_init T (VDict xp) = Inr (volume_init (Some ''slice''))"
    by (rule volume_slice_init_absent [OF assms(2)])
  {
    fix ptx adj
    assume "volume_ptx_init T (VDict xp) = Inr ptx" "volume_adjustment_init T (VDict xp) = Inr adj"
    with s assms(1) show "\<exists>reg. prot_volumes_init T P p = Inr reg"
      by (auto simp: prot_volumes_init_Inr build_volumes_Inr)
  }
  {
    fix reg
    assume i: "prot_volumes_init T P p = Inr reg"
    with assms(1) have "build_volumes T (VDict xp) = Inr reg"
      by (auto simp: prot_volumes_init_Inr)
    with s obtain ptx adj where
      r: "all_volumes reg = [(''slc'', volume_init (Some ''slice'')), (''ptx'', ptx), (''adj'', adj)]"
      by (auto simp: build_volumes_Inr)
    show "\<exists>c. get reg ''slc'' = Inr c \<and> len c = 0"
      by (simp add: get_def r len_def volume_init_def)
    show "''slc'' \<notin> set (get_volume_names reg)"
      by (simp add: get_volume_names_def r len_def volume_init_def)
    show "\<forall>n \<in> set (get_volume_names reg). \<exists>c. get reg n = Inr c \<and> 0 < len c"
      by (blast intro: get_volume_names_nonempty)
  }
qed

theorem slice_array_absent_excluded_witness:
  "read_xprot no_files (PDict (ex_adjustment_protocol (3/2)))
     = Inr (Some (VDict (ex_adjustment_protocol (3/2))))
   \<and> slice_array_absent (ex_adjustment_protocol (3/2))
   \<and> prot_volumes_init const_transformation no_files (PDict (ex_adjustment_protocol (3/2))) = Inr ex_registry
   \<and> (\<exists>c. get ex_registry ''slc'' = Inr c \<and> len c = 0)
   \<and> ''slc'' \<notin> set (get_volume_names ex_registry)
   \<and> get_volume_names ex_registry = [''adj'']
   \<and> (\<exists>c. get ex_registry ''adj'' = Inr c \<and> 0 < len c)"
proof -
  have a: "slice_array_absent (ex_adjustment_protocol (3/2))"
    by (simp add: slice_array_absent_def ex_adjustment_protocol_def)
  have n: "get_volume_names ex_registry = [''adj'']"
    by (simp add: get_volume_names_def ex_registry_def len_def)
  from slice_array_absent_excluded [OF ex_read_xprot a, of const_transformation no_files]
    ex_registry_init
  have s: "\<exists>c. get ex_registry ''slc'' = Inr c \<and> len c = 0"
    "''slc'' \<notin> set (get_volume_names ex_registry)"
    and e: "\<forall>n \<in> set (get_volume_names ex_registry). \<exists>c. get ex_registry n = Inr c \<and> 0 < len c"
    by blast+
  from e n have "\<exists>c. get ex_registry ''adj'' = Inr c \<and> 0 < len c" by simp
  with s a n ex_registry_init ex_read_xprot show ?thesis by blast
qed

text \<open>
  C5, as stated, has the construction succeed for every protocol without a slice array.
  A protocol without a slice array whose adjustment volume is 0.5 mm thick makes the
  constructor raise \<^verbatim>\<open>ZeroDivisionError\<close>.
\<close>

theorem slice_array_absent_excluded_counterexample:
  "read_xprot no_files (PDict (ex_adjustment_protocol (1/2)))
     = Inr (Some (VDict (ex_adjustment_protocol (1/2))))
   \<and> slice_array_absent (ex_adjustment_protocol (1/2))
   \<and> prot_volumes_init const_transformation no_files (PDict (ex_adjustment_protocol (1/2)))
       = Inl ZeroDivisionError"
proof -
  have "volume_orientation_init const_transformation (ex_volume (1/2)) VNone VNone VNone
      = Inl ZeroDivisionError"
    by (simp add: volume_orientation_init_def ex_volume_def read_normal_def item_get_def
      read_position_def get_get_def read_fov_def resolve_res_def resolve_thickness_def
      py_truediv_def)
  then have a: "volume_adjustment_init const_transformation (VDict (ex_adjustment_protocol (1/2)))
      = Inl ZeroDivisionError"
    by (simp add: volume_adjustment_init_def ex_adjustment_protocol_def)
  have b: "build_volumes const_transformation (VDict (ex_adjustment_protocol (1/2)))
      = Inl ZeroDivisionError"
    by (simp add: build_volumes_def a ex_slice_ptx)
  then have c: "prot_volumes_init const_transformation no_files (PDict (ex_adjustment_protocol (1/2)))
      = Inl ZeroDivisionError"
    by (simp add: prot_volumes_init_def ex_read_xprot)
  have d: "slice_array_absent (ex_adjustment_protocol (1/2))"
    by (simp add: slice_array_absent_def ex_adjustment_protocol_def)
  from c d ex_read_xprot show ?thesis by blast
qed

subsection \<open>The protocol summary\<close>

text \<open>
  When \<^verbatim>\<open>alShimCurrent\<close> or \<^verbatim>\<open>asGPAData\<close> is missing from \<^verbatim>\<open>sGRADSPEC\<close>, the default of
  \<^verbatim>\<open>.get\<close> is the float 0.0, which has neither a length nor items: the constructor
  raises for every such header.
\<close>

lemma isl_rbindI: "(\<And>x. m = Inr x \<Longrightarrow> isl (f x)) \<Longrightarrow> isl (rbind m f)"
  by (cases m) simp_all

lemma gpa_offset_missing:
  assumes "py_path h [K ''Phoenix'', K ''sGRADSPEC''] = Inr (VDict g)"
    and "map_of g ''asGPAData'' = None"
  shows "gpa_offset h k = Inl TypeError"
  using assms by (simp add: gpa_offset_def del: py_path.simps)

lemma read_shims_missing:
  assumes "py_path h [K ''Phoenix'', K ''sGRADSPEC''] = Inr (VDict g)"
    and "map_of g ''alShimCurrent'' = None \<or> map_of g ''asGPAData'' = None"
  shows "isl (read_shims h)"
proof (cases "map_of g ''asGPAData''")
  case None
  show ?thesis
    unfolding read_shims_def
    by (intro isl_rbindI) (simp add: gpa_offset_missing [OF assms(1) None])
next
  case (Some a)
  with assms(2) have al: "map_of g ''alShimCurrent'' = None" by simp
  have sc: "shim_current (VFloat 0) 0 = Inl TypeError"
    by (simp add: shim_current_def)
  show ?thesis
    unfolding read_shims_def
    by (intro isl_rbindI) (use assms(1) al sc in \<open>auto simp del: py_path.simps\<close>)
qed

lemma protocol_parse_init_shims:
  assumes "isl (read_shims (hdr tw))"
  shows "isl (protocol_parse_init tw)"
  unfolding protocol_parse_init_def
  by (intro isl_rbindI) (use assms in simp)

lemma protocol_parse_init_missing_key_raises:
  assumes "py_path (hdr tw) [K ''Phoenix'', K ''sGRADSPEC''] = Inr (VDict g)"
    and "map_of g ''alShimCurrent'' = None \<or> map_of g ''asGPAData'' = None"
  shows "isl (protocol_parse_init tw)"
  by (rule protocol_parse_init_shims [OF read_shims_missing [OF assms]])

lemma ex_read_res:
  "read_res (ex_hdr g) = Inr (False, VDict [(''x'', VInt 256), (''y'', VInt 256), (''z'', VInt 1)])"
  by (simp add: read_res_def ex_hdr_def py_eq_int_def)

lemma ex_partial_fourier_ro:
  "partial_fourier_ro (VDict [(''x'', VInt 256), (''y'', VInt 256), (''z'', VInt 1)]) ex_image = Inr True"
  by (simp add: partial_fourier_ro_def ex_image_def list_getitem_def)

lemma ex_read_meas:
  "read_meas (ex_hdr g) = Inr (VStr ''gre'', VFloat 8, VList [VInt 4000], VFloat 15, VStr ''Head_32'')"
  by (simp add: read_meas_def ex_hdr_def list_getitem_def)

lemma ex_read_shims:
  "read_shims (ex_hdr [ex_gpa, ex_shim_current]) =
     Inr (VDict [(''A00'', VInt 123255000), (''X'', VInt 12), (''Y'', VInt (- 7)), (''Z'', VInt 3),
                 (''A20'', VInt 5), (''A21'', VInt (- 4)), (''B21'', VInt 3), (''A22'', VInt 2),
                 (''B22'', VInt 1), (''A30'', VFloat 0), (''A31'', VFloat 0), (''B31'', VFloat 0),
                 (''A32'', VFloat 0)])"
  by (simp add: read_shims_def ex_hdr_def ex_gpa_def ex_shim_current_def gpa_offset_def
      shim_current_def list_getitem_def)

lemma ex_read_shims_no_current: "read_shims (ex_hdr [ex_gpa]) = Inl TypeError"
  by (simp add: read_shims_def ex_hdr_def ex_gpa_def gpa_offset_def shim_current_def list_getitem_def)

lemma ex_read_shims_no_gpa: "read_shims (ex_hdr [ex_shim_current]) = Inl TypeError"
  by (simp add: read_shims_def ex_hdr_def ex_shim_current_def gpa_offset_def list_getitem_def)

lemma ex_init_upto_shims:
  "protocol_parse_init (ex_twix g) =
     rbind (read_shims (ex_hdr g)) (\<lambda>sh.
       Inr \<lparr>is3D = False, res = VDict [(''x'', VInt 256), (''y'', VInt 256), (''z'', VInt 1)],
            isParallelImaging = False, isRefScanSeparate = False,
            acceleration_factor = [VInt 1, VInt 1], isPartialFourierRO = True,
            isPartialFourierPE1 = False, isPartialFourierPE2 = False,
            protName = VStr ''gre'', TR = VFloat 8, TE = VList [VInt 4000],
            FA = VFloat 15, OS = VInt 0, coilName = VStr ''Head_32'', shims = sh\<rparr>)"
proof -
  have p: "py_path (ex_hdr g) [K ''MeasYaps'', K ''sPat'', K ''ucPATMode''] = Inr (VInt 1)"
    "py_path (ex_hdr g) [K ''MeasYaps'', K ''sPat'', K ''ucRefScanMode''] = Inr (VInt 1)"
    "py_path (ex_hdr g) [K ''MeasYaps'', K ''sPat'', K ''lAccelFactPE''] = Inr (VInt 1)"
    "py_path (ex_hdr g) [K ''MeasYaps'', K ''sPat'', K ''lAccelFact3D''] = Inr (VInt 1)"
    "py_path (ex_hdr g) [K ''MeasYaps'', K ''sKSpace'', K ''ucPhasePartialFourier''] = Inr (VInt 16)"
    "py_path (ex_hdr g) [K ''MeasYaps'', K ''sKSpace'', K ''ucSlicePartialFourier''] = Inr (VInt 16)"
    by (simp_all add: ex_hdr_def)
  show ?thesis
    by (simp add: protocol_parse_init_def ex_twix_def ex_read_res ex_partial_fourier_ro
        ex_read_meas p py_eq_int_def del: py_path.simps)
qed

text \<open>
  C2. The specification has the constructor succeed, with zero shim fields, when
  \<^verbatim>\<open>alShimCurrent\<close> or \<^verbatim>\<open>asGPAData\<close> is absent. On the example header the constructor
  succeeds when both are present and raises \<^verbatim>\<open>TypeError\<close> when either is left out.
\<close>

theorem protocol_parse_init_missing_shims:
  "protocol_parse_init (ex_twix [ex_gpa]) = Inl TypeError
   \<and> protocol_parse_init (ex_twix [ex_shim_current]) = Inl TypeError
   \<and> \<not> isl (protocol_parse_init (ex_twix [ex_gpa, ex_shim_current]))"
  by (simp add: ex_init_upto_shims ex_read_shims ex_read_shims_no_current ex_read_shims_no_gpa)










end
